theory Spec2Isabelle
  imports Main "HOL-Library.List_Lexorder" "HOL-Library.Multiset"
begin

section \<open>JavaScript values and strings\<close>

text \<open>
  A JavaScript string is a sequence of UTF-16 code units, and \<open>length\<close>, \<open>slice\<close>,
  \<open>startsWith\<close>, the regular expressions and the default \<open>sort\<close> of \<open>listener.js\<close>
  all work on code units. A string is therefore a list of code units (numbers below 65536);
  \<open>str\<close> turns an ASCII literal into one.
\<close>

type_synonym cu = nat
type_synonym jstring = "cu list"

definition str :: "string \<Rightarrow> jstring" where
  "str s = map of_char s"

text \<open>
  The values that reach the functions of \<open>listener.js\<close>: \<open>undefined\<close>, \<open>null\<close>, booleans,
  numbers, strings, and the wrapper objects of the record store, \<open>{ value: v, ... }\<close>.
  \<open>JNum n\<close> is an integer-valued Number of magnitude below \<open>10^21\<close>, which \<open>toString\<close>
  prints in plain decimal; \<open>JObj v\<close> is a plain object whose \<open>value\<close> property is \<open>v\<close>
  (\<open>JUndefined\<close> when it has none), its other properties are never read by the code.
\<close>

datatype jsval =
    JUndefined
  | JNull
  | JBool bool
  | JNum int
  | JStr jstring
  | JObj jsval

text \<open>ToBoolean, as used by \<open>!x\<close>, \<open>if (x)\<close> and \<open>x || y\<close>.\<close>

fun truthy :: "jsval \<Rightarrow> bool" where
  "truthy JUndefined = False"
| "truthy JNull = False"
| "truthy (JBool b) = b"
| "truthy (JNum n) = (n \<noteq> 0)"
| "truthy (JStr s) = (s \<noteq> [])"
| "truthy (JObj v) = True"

text \<open>\<open>a || b\<close>\<close>

definition orElse :: "jsval \<Rightarrow> jsval \<Rightarrow> jsval" where
  "orElse a b = (if truthy a then a else b)"

text \<open>\<open>x?.value\<close>: \<open>undefined\<close> on \<open>undefined\<close>, \<open>null\<close> and on every primitive.\<close>

fun getValue :: "jsval \<Rightarrow> jsval" where
  "getValue (JObj v) = v"
| "getValue _ = JUndefined"

text \<open>\<open>typeof x === "string"\<close>\<close>

fun isString :: "jsval \<Rightarrow> bool" where
  "isString (JStr s) = True"
| "isString _ = False"

text \<open>Decimal digits of a natural number, most significant first.\<close>

fun showNat :: "nat \<Rightarrow> jstring" where
  "showNat n = (if n < 10 then [48 + n] else showNat (n div 10) @ [48 + n mod 10])"

declare showNat.simps [simp del]

text \<open>
  ToString, as done by \<open>x.toString()\<close> and by a template literal \<open>`${x}`\<close>. The code calls
  \<open>toString()\<close> only on truthy values, where the two agree.
\<close>

fun toString :: "jsval \<Rightarrow> jstring" where
  "toString JUndefined = str ''undefined''"
| "toString JNull = str ''null''"
| "toString (JBool b) = (if b then str ''true'' else str ''false'')"
| "toString (JNum n) = (if n < 0 then 45 # showNat (nat (- n)) else showNat (nat n))"
| "toString (JStr s) = s"
| "toString (JObj v) = str ''[object Object]''"

text \<open>\<open>\d\<close> is \<open>[0-9]\<close>, \<open>\w\<close> is \<open>[A-Za-z0-9_]\<close> (the regular expressions have no \<open>u\<close> or \<open>i\<close> flag).\<close>

definition isDigit :: "cu \<Rightarrow> bool" where
  "isDigit c = (48 \<le> c \<and> c \<le> 57)"

definition isWordChar :: "cu \<Rightarrow> bool" where
  "isWordChar c = ((65 \<le> c \<and> c \<le> 90) \<or> (97 \<le> c \<and> c \<le> 122) \<or> isDigit c \<or> c = 95)"

text \<open>\<open>\s\<close>: the white space and line terminator code units of ECMAScript.\<close>

definition isSpace :: "cu \<Rightarrow> bool" where
  "isSpace c = ((9 \<le> c \<and> c \<le> 13) \<or> c = 32 \<or> c = 160 \<or> c = 5760
      \<or> (8192 \<le> c \<and> c \<le> 8202) \<or> c = 8232 \<or> c = 8233 \<or> c = 8239 \<or> c = 8287
      \<or> c = 12288 \<or> c = 65279)"

text \<open>\<open>s.startsWith(p)\<close>\<close>

definition startsWith :: "jstring \<Rightarrow> jstring \<Rightarrow> bool" where
  "startsWith s p = (take (length p) s = p)"

text \<open>\<open>s.slice(a, b)\<close> and \<open>s.slice(a)\<close> for the non-negative constants the code passes.\<close>

definition slice :: "nat \<Rightarrow> nat \<Rightarrow> jstring \<Rightarrow> jstring" where
  "slice a b s = take (b - a) (drop a s)"

definition sliceFrom :: "nat \<Rightarrow> jstring \<Rightarrow> jstring" where
  "sliceFrom a s = drop a s"

text \<open>\<open>s.replace(/\D/g, "")\<close>\<close>

definition stripNonDigits :: "jstring \<Rightarrow> jstring" where
  "stripNonDigits s = filter isDigit s"

section \<open>TextCanonicalizer\<close>

subsection \<open>formatPhoneNumber\<close>

definition formatPhoneNumber :: "jsval \<Rightarrow> jstring" where
  "formatPhoneNumber phone =
     (if \<not> truthy phone then []
      else
        let cleanPhone = stripNonDigits (toString phone) in
        if length cleanPhone = 10 then
          str ''+1 ('' @ slice 0 3 cleanPhone @ str '') '' @ slice 3 6 cleanPhone
            @ str ''-'' @ sliceFrom 6 cleanPhone
        else if length cleanPhone = 11 \<and> startsWith cleanPhone (str ''1'') then
          str ''+'' @ slice 0 1 cleanPhone @ str '' ('' @ slice 1 4 cleanPhone @ str '') ''
            @ slice 4 7 cleanPhone @ str ''-'' @ sliceFrom 7 cleanPhone
        else if startsWith (toString phone) (str ''+'') then toString phone
        else str ''+'' @ cleanPhone)"

subsection \<open>isUSANumber\<close>

text \<open>\<open>/^\d{10}$/\<close> and its relatives: exactly \<open>n\<close> code units, all digits.\<close>

definition digitsN :: "nat \<Rightarrow> jstring \<Rightarrow> bool" where
  "digitsN n s = (length s = n \<and> list_all isDigit s)"

text \<open>
  \<open>\s?\<close> in front of a token that is not white space: one white space code unit is
  consumed when there is one.
\<close>

fun skipOptSpace :: "jstring \<Rightarrow> jstring" where
  "skipOptSpace [] = []"
| "skipOptSpace (c # cs) = (if isSpace c then cs else c # cs)"

text \<open>\<open>/^\d{1}\s?\(\d{3}\)\s?\d{3}-\d{4}$/\<close>\<close>

definition matchesFormattedUS :: "jstring \<Rightarrow> bool" where
  "matchesFormattedUS s =
     (digitsN 1 (take 1 s) \<and>
      (let r = skipOptSpace (drop 1 s) in
         take 1 r = str ''('' \<and> digitsN 3 (take 3 (drop 1 r)) \<and> take 1 (drop 4 r) = str '')'' \<and>
         (let q = skipOptSpace (drop 5 r) in
            digitsN 3 (take 3 q) \<and> take 1 (drop 3 q) = str ''-'' \<and> digitsN 4 (drop 4 q))))"

text \<open>
  The block of lines 54 to 72: \<open>Some b\<close> when it returns \<open>b\<close>, \<open>None\<close> when control
  falls through to the digit count.
\<close>

definition plusOneCheck :: "jstring \<Rightarrow> bool option" where
  "plusOneCheck phoneStr =
     (if startsWith phoneStr (str ''+1'') \<and> length phoneStr > 2 then
        (let nextChar = phoneStr ! 2 in
         if isDigit nextChar then
           (let afterPlus1 = drop 2 phoneStr in
            if digitsN 10 afterPlus1 \<or> matchesFormattedUS afterPlus1 then Some True
            else if length afterPlus1 > 10 then Some False
            else None)
         else None)
      else None)"

definition isUSANumber :: "jsval \<Rightarrow> bool" where
  "isUSANumber phone =
     (if \<not> truthy phone then False
      else
        let phoneStr = toString phone in
        if startsWith phoneStr (str ''+1 '') then True
        else
          (case plusOneCheck phoneStr of
             Some b \<Rightarrow> b
           | None \<Rightarrow>
               let cleanPhone = stripNonDigits phoneStr in
               if length cleanPhone = 10 then True
               else if length cleanPhone = 11 \<and> startsWith cleanPhone (str ''1'') then True
               else False))"

subsection \<open>toNameCase\<close>

text \<open>
  \<open>String.prototype.toLowerCase\<close> is the platform's: it follows the case mappings of
  Unicode, which are no code of this repository and can change the length of a string.
  It is the parameter \<open>toLowerCase\<close> of \<open>toNameCase\<close> and of every function that calls it.
  \<open>toLowerCaseASCII\<close> is what it does on a string of ASCII code units; it stands for
  the platform where a statement is about concrete ASCII names.

  \<open>letter.toUpperCase()\<close> is applied to one code unit matched by \<open>\w\<close>, which is ASCII.
\<close>

definition lowerCU :: "cu \<Rightarrow> cu" where
  "lowerCU c = (if 65 \<le> c \<and> c \<le> 90 then c + 32 else c)"

definition upperCU :: "cu \<Rightarrow> cu" where
  "upperCU c = (if 97 \<le> c \<and> c \<le> 122 then c - 32 else c)"

definition toLowerCaseASCII :: "jstring \<Rightarrow> jstring" where
  "toLowerCaseASCII s = map lowerCU s"

text \<open>
  \<open>s.replace(/\b\w/g, (letter) => letter.toUpperCase())\<close>: a match is one word character
  that stands at the start of the string or after a non-word character. The flag says
  whether the code unit before the current one is a word character.
\<close>

fun replaceWordStarts :: "bool \<Rightarrow> jstring \<Rightarrow> jstring" where
  "replaceWordStarts prevWord [] = []"
| "replaceWordStarts prevWord (c # cs) =
     (if isWordChar c \<and> \<not> prevWord then upperCU c else c) # replaceWordStarts (isWordChar c) cs"

definition toNameCase :: "(jstring \<Rightarrow> jstring) \<Rightarrow> jsval \<Rightarrow> jstring" where
  "toNameCase toLowerCase name =
     (if \<not> truthy name \<or> \<not> isString name then []
      else replaceWordStarts False (toLowerCase (toString name)))"

section \<open>Records and record updates\<close>

text \<open>
  A record of the sheet: its \<open>id\<close> and its \<open>values\<close>, an object from field names to
  values, in insertion order (\<open>Object.entries\<close> lists it; an object holds each name
  once). \<open>rvalues r = None\<close> is a record without (or with a \<open>null\<close>) \<open>values\<close> property.
  A field value is a bare scalar or a wrapper object.
\<close>

type_synonym fieldMap = "(jstring \<times> jsval) list"

record sheetRecord =
  rid :: jsval
  rvalues :: "fieldMap option"

text \<open>An element of \<open>updates\<close>: \<open>{ id: record.id, values: recordUpdates }\<close>.\<close>

record recordUpdate =
  uid :: jsval
  uvalues :: fieldMap

text \<open>\<open>values.k\<close>: \<open>undefined\<close> when the object has no property \<open>k\<close>.\<close>

definition getField :: "fieldMap \<Rightarrow> jstring \<Rightarrow> jsval" where
  "getField vs k = (case map_of vs k of None \<Rightarrow> JUndefined | Some v \<Rightarrow> v)"

text \<open>\<open>values.k?.value || values.k\<close>\<close>

definition unwrapField :: "fieldMap \<Rightarrow> jstring \<Rightarrow> jsval" where
  "unwrapField vs k = orElse (getValue (getField vs k)) (getField vs k)"

section \<open>RowSignatureEngine\<close>

text \<open>\<open>xs.join(sep)\<close>\<close>

fun joinWith :: "jstring \<Rightarrow> jstring list \<Rightarrow> jstring" where
  "joinWith sep [] = []"
| "joinWith sep [x] = x"
| "joinWith sep (x # y # ys) = x @ sep @ joinWith sep (y # ys)"

text \<open>
  \<open>createRowSignature\<close>, lines 502 to 515. The default \<open>sort()\<close> of an array of strings
  orders them by their code units, which is the lexicographic order of the lists.
\<close>

definition fieldEntry :: "jstring \<times> jsval \<Rightarrow> jstring" where
  "fieldEntry kv =
     (let fieldValue = orElse (getValue (snd kv)) (snd kv)
      in fst kv @ str '':'' @ toString fieldValue)"

definition createRowSignature :: "fieldMap \<Rightarrow> jstring" where
  "createRowSignature vs =
     (let fieldValues = map fieldEntry vs
      in joinWith (str ''|'') (sort fieldValues))"

section \<open>formatRecords\<close>

subsection \<open>The record store\<close>

text \<open>
  The shapes of a response of \<open>api.records.get\<close> that the code tells apart:
  \<open>response.data.records\<close> is an array, \<open>response.data\<close> is an array, anything else.
\<close>

datatype response =
    DataRecords "sheetRecord list"
  | DataArray "sheetRecord list"
  | NoData

datatype storeError = StoreError (message: jstring)

text \<open>
  The store of one sheet, as the code sees it: \<open>recordsGet n\<close> is the outcome of the
  call of \<open>api.records.get\<close> number \<open>n\<close> (from 0) of a run, \<open>recordsUpdate us\<close> the error
  that \<open>api.records.update\<close> throws on the batch \<open>us\<close>, if any.
\<close>

record store =
  recordsGet :: "nat \<Rightarrow> storeError + response"
  recordsUpdate :: "recordUpdate list \<Rightarrow> storeError option"

text \<open>
  What a run does to the outside, in order: the calls of the store, the delays, and the
  log line of a failed attempt. The other \<open>console.log\<close> lines are not recorded; those
  inside the \<open>try\<close> of the loop read \<open>records[0].id\<close> of a record object and throw nothing.
\<close>

datatype event =
    ApiRecordsGet
  | LogAttemptFailed nat jstring
  | Wait nat
  | ApiRecordsUpdate "recordUpdate list"

record outcome =
  trace :: "event list"
  raised :: "storeError option"

subsection \<open>Fetching with retries, lines 300 to 365\<close>

definition maxAttempts :: nat where
  "maxAttempts = 5"

definition extractRecords :: "response \<Rightarrow> sheetRecord list" where
  "extractRecords response =
     (case response of DataRecords rs \<Rightarrow> rs | DataArray rs \<Rightarrow> rs | NoData \<Rightarrow> [])"

text \<open>Lines 355 to 359: the delay of 2000 ms after the attempt counter was incremented.\<close>

definition waitEvents :: "nat \<Rightarrow> event list" where
  "waitEvents attempts = (if attempts < maxAttempts then [Wait 2000] else [])"

function fetchLoop ::
  "(nat \<Rightarrow> storeError + response) \<Rightarrow> nat \<Rightarrow> sheetRecord list \<Rightarrow> event list
     \<Rightarrow> sheetRecord list \<times> event list" where
  "fetchLoop get attempts records tr =
     (if attempts < maxAttempts then
        (case get attempts of
           Inr response \<Rightarrow>
             (let records' = extractRecords response in
              if length records' > 0 then (records', tr @ [ApiRecordsGet])
              else fetchLoop get (attempts + 1) records'
                     (tr @ [ApiRecordsGet] @ waitEvents (attempts + 1)))
         | Inl error \<Rightarrow>
             fetchLoop get (attempts + 1) records
               (tr @ [ApiRecordsGet, LogAttemptFailed (attempts + 1) (message error)]
                   @ waitEvents (attempts + 1)))
      else (records, tr))"
  by pat_completeness auto
termination
  by (relation "measure (\<lambda>(get, attempts, records, tr). maxAttempts - attempts)") auto

declare fetchLoop.simps [simp del]

definition fetchRecords :: "(nat \<Rightarrow> storeError + response) \<Rightarrow> sheetRecord list \<times> event list" where
  "fetchRecords get = fetchLoop get 0 [] []"

subsection \<open>First pass: signatures, lines 367 to 377\<close>

type_synonym rowSignatures = "jstring \<rightharpoonup> nat"
type_synonym recordSignatures = "jsval \<rightharpoonup> jstring"

fun firstPass ::
  "sheetRecord list \<Rightarrow> rowSignatures \<times> recordSignatures \<Rightarrow> rowSignatures \<times> recordSignatures" where
  "firstPass [] maps = maps"
| "firstPass (r # rs) (rowSignatures, recordSignatures) =
     (case rvalues r of
        None \<Rightarrow> firstPass rs (rowSignatures, recordSignatures)
      | Some vs \<Rightarrow>
          (let signature = createRowSignature vs in
           firstPass rs
             (rowSignatures(signature \<mapsto>
                 (case rowSignatures signature of None \<Rightarrow> 0 | Some n \<Rightarrow> n) + 1),
              recordSignatures(rid r \<mapsto> signature))))"

subsection \<open>Second pass: the updates of one record, lines 385 to 484\<close>

definition nameUpdate :: "(jstring \<Rightarrow> jstring) \<Rightarrow> jstring \<Rightarrow> jsval \<Rightarrow> fieldMap" where
  "nameUpdate toLowerCase key name =
     (if truthy name \<and> isString name then
        (let formatted = toNameCase toLowerCase name in
         if JStr formatted \<noteq> name then [(key, JObj (JStr formatted))] else [])
      else [])"

text \<open>
  \<open>formatPhoneNumber\<close> throws on none of the values of \<open>jsval\<close>, so the \<open>catch\<close> of
  line 434 has no branch here.
\<close>

definition phoneUpdate :: "jsval \<Rightarrow> fieldMap" where
  "phoneUpdate phone =
     (if truthy phone then
        (let formatted = formatPhoneNumber phone in
         if formatted \<noteq> toString phone then [(str ''phone'', JObj (JStr formatted))] else [])
      else [])"

definition usaUpdate :: "fieldMap \<Rightarrow> jsval \<Rightarrow> fieldMap" where
  "usaUpdate vs phone =
     (if truthy phone then
        (let isUSA = isUSANumber phone;
             currentUSAValue = unwrapField vs (str ''isUSANumber'')
         in if JBool isUSA \<noteq> currentUSAValue then [(str ''isUSANumber'', JObj (JBool isUSA))]
            else [])
      else [])"

definition duplicateMarker :: "nat \<Rightarrow> jstring" where
  "duplicateMarker duplicateCount =
     [9888, 65039] @ str '' Duplicate ('' @ showNat duplicateCount @ str '' total)''"

definition uniqueMarker :: jstring where
  "uniqueMarker = [9989] @ str '' Unique''"

text \<open>
  The local \<open>duplicateStatus\<close> of lines 454 to 469: \<open>None\<close> when the record has no
  signature in \<open>recordSignatures\<close> or an empty one, and the block is not entered.
  \<open>rowSignatures.get\<close> of a missing key is \<open>undefined\<close>, and \<open>undefined > 1\<close> is false.
\<close>

definition assignedStatus :: "rowSignatures \<Rightarrow> recordSignatures \<Rightarrow> sheetRecord \<Rightarrow> jstring option" where
  "assignedStatus rowSignatures recordSignatures r =
     (case recordSignatures (rid r) of
        None \<Rightarrow> None
      | Some signature \<Rightarrow>
          if signature \<noteq> [] then
            (case rowSignatures signature of
               None \<Rightarrow> Some uniqueMarker
             | Some duplicateCount \<Rightarrow>
                 if duplicateCount > 1 then Some (duplicateMarker duplicateCount)
                 else Some uniqueMarker)
          else None)"

definition duplicateUpdate ::
  "rowSignatures \<Rightarrow> recordSignatures \<Rightarrow> sheetRecord \<Rightarrow> fieldMap \<Rightarrow> fieldMap" where
  "duplicateUpdate rowSignatures recordSignatures r vs =
     (case assignedStatus rowSignatures recordSignatures r of
        None \<Rightarrow> []
      | Some duplicateStatus \<Rightarrow>
          (let currentDuplicateStatus = unwrapField vs (str ''duplicateStatus'')
           in if JStr duplicateStatus \<noteq> currentDuplicateStatus
              then [(str ''duplicateStatus'', JObj (JStr duplicateStatus))]
              else []))"

text \<open>
  \<open>recordUpdates\<close> collects the properties in the order in which the code sets them, and
  \<open>hasUpdates\<close> is set exactly when one is.
\<close>

definition processRecord ::
  "(jstring \<Rightarrow> jstring) \<Rightarrow> rowSignatures \<Rightarrow> recordSignatures \<Rightarrow> sheetRecord
     \<Rightarrow> recordUpdate option" where
  "processRecord toLowerCase rowSignatures recordSignatures r =
     (case rvalues r of
        None \<Rightarrow> None
      | Some vs \<Rightarrow>
          (let firstName = unwrapField vs (str ''firstName'');
               lastName = unwrapField vs (str ''lastName'');
               phone = unwrapField vs (str ''phone'');
               recordUpdates =
                 nameUpdate toLowerCase (str ''firstName'') firstName
                 @ nameUpdate toLowerCase (str ''lastName'') lastName
                 @ phoneUpdate phone
                 @ usaUpdate vs phone
                 @ duplicateUpdate rowSignatures recordSignatures r vs;
               hasUpdates = (recordUpdates \<noteq> [])
           in if hasUpdates then Some \<lparr>uid = rid r, uvalues = recordUpdates\<rparr> else None))"

fun secondPass ::
  "(jstring \<Rightarrow> jstring) \<Rightarrow> rowSignatures \<Rightarrow> recordSignatures \<Rightarrow> sheetRecord list
     \<Rightarrow> recordUpdate list" where
  "secondPass toLowerCase rowSignatures recordSignatures [] = []"
| "secondPass toLowerCase rowSignatures recordSignatures (r # rs) =
     (case processRecord toLowerCase rowSignatures recordSignatures r of
        None \<Rightarrow> secondPass toLowerCase rowSignatures recordSignatures rs
      | Some u \<Rightarrow> u # secondPass toLowerCase rowSignatures recordSignatures rs)"

text \<open>The \<open>updates\<close> of a run on the fetched records, lines 367 to 484.\<close>

definition computeUpdates :: "(jstring \<Rightarrow> jstring) \<Rightarrow> sheetRecord list \<Rightarrow> recordUpdate list" where
  "computeUpdates toLowerCase records =
     (let maps = firstPass records (Map.empty, Map.empty)
      in secondPass toLowerCase (fst maps) (snd maps) records)"

subsection \<open>The whole run, lines 294 to 499\<close>

text \<open>
  The outer \<open>catch\<close> logs and rethrows: the only error a run raises is the one of
  \<open>api.records.update\<close>. The sheet id is fixed, the store is the one of that sheet.
\<close>

definition formatRecords :: "(jstring \<Rightarrow> jstring) \<Rightarrow> store \<Rightarrow> outcome" where
  "formatRecords toLowerCase st =
     (let fetched = fetchRecords (recordsGet st);
          records = fst fetched;
          tr = snd fetched
      in if length records = 0 then \<lparr>trace = tr, raised = None\<rparr>
         else
           (let updates = computeUpdates toLowerCase records in
            if length updates > 0 then
              \<lparr>trace = tr @ [ApiRecordsUpdate updates], raised = recordsUpdate st updates\<rparr>
            else \<lparr>trace = tr, raised = None\<rparr>))"

section \<open>Notions of the specification\<close>



text \<open>
  The batch update of the record store, which is not code of this repository: every
  field of an update replaces the field of that name in the record with the update's
  id, in the wrapper form in which the update carries it; other fields stay.
\<close>

fun setField :: "jstring \<Rightarrow> jsval \<Rightarrow> fieldMap \<Rightarrow> fieldMap" where
  "setField k v [] = [(k, v)]"
| "setField k v (kv # vs) = (if fst kv = k then (k, v) # vs else kv # setField k v vs)"

definition applyUpdate :: "recordUpdate \<Rightarrow> sheetRecord \<Rightarrow> sheetRecord" where
  "applyUpdate u r =
     (if rid r = uid u then
        (case rvalues r of
           None \<Rightarrow> r
         | Some vs \<Rightarrow> r\<lparr>rvalues := Some (fold (\<lambda>kv. setField (fst kv) (snd kv)) (uvalues u) vs)\<rparr>)
      else r)"

definition applyUpdates :: "recordUpdate list \<Rightarrow> sheetRecord list \<Rightarrow> sheetRecord list" where
  "applyUpdates us rs = map (\<lambda>r. fold applyUpdate us r) rs"

text \<open>
  What a batch of updates does to the \<open>duplicateStatus\<close> of a record with field map
  \<open>vs\<close>: an update of the record writes the status \<open>m\<close> in wrapper form, or no update of
  the record touches the field. A record receives \<open>m\<close> when \<open>m\<close> is written, or is
  what lines 457 to 459 read as its current status and the field is left alone.
\<close>

definition statusWritten :: "recordUpdate list \<Rightarrow> sheetRecord \<Rightarrow> jstring \<Rightarrow> bool" where
  "statusWritten updates r m =
     list_ex (\<lambda>u. uid u = rid r \<and> (str ''duplicateStatus'', JObj (JStr m)) \<in> set (uvalues u))
       updates"

definition statusKept :: "recordUpdate list \<Rightarrow> sheetRecord \<Rightarrow> bool" where
  "statusKept updates r =
     list_all (\<lambda>u. uid u \<noteq> rid r \<or> str ''duplicateStatus'' \<notin> fst ` set (uvalues u)) updates"

definition receivesStatus ::
  "recordUpdate list \<Rightarrow> sheetRecord \<Rightarrow> fieldMap \<Rightarrow> jstring \<Rightarrow> bool" where
  "receivesStatus updates r vs m =
     (if unwrapField vs (str ''duplicateStatus'') = JStr m then statusKept updates r
      else statusWritten updates r m)"

text \<open>
  What one attempt of the retry loop obtains, and what an attempt that obtains nothing
  leaves in the trace: the call, the log line when the call threw, and the delay unless
  the attempt was the last.
\<close>

definition attemptRecords :: "(nat \<Rightarrow> storeError + response) \<Rightarrow> nat \<Rightarrow> sheetRecord list" where
  "attemptRecords get i = (case get i of Inl e \<Rightarrow> [] | Inr response \<Rightarrow> extractRecords response)"

definition failedAttemptTrace :: "(nat \<Rightarrow> storeError + response) \<Rightarrow> nat \<Rightarrow> event list" where
  "failedAttemptTrace get i =
     ApiRecordsGet
     # (case get i of Inl e \<Rightarrow> [LogAttemptFailed (i + 1) (message e)] | Inr response \<Rightarrow> [])
     @ (if i + 1 < 5 then [Wait 2000] else [])"

text \<open>
  The canonical shape \<open>+C (AAA) PPP-LLLL\<close> built from an eleven-digit string.
\<close>

definition formatDigits :: "jstring \<Rightarrow> jstring" where
  "formatDigits d =
     43 # take 1 d @ str '' ('' @ take 3 (drop 1 d) @ str '') '' @ take 3 (drop 4 d)
        @ str ''-'' @ drop 7 d"

section \<open>Properties of the text canonicalizer\<close>

lemmas eval_defs =
  str_def stripNonDigits_def isDigit_def slice_def sliceFrom_def startsWith_def
  formatPhoneNumber_def isUSANumber_def plusOneCheck_def digitsN_def matchesFormattedUS_def
  toNameCase_def toLowerCaseASCII_def lowerCU_def upperCU_def isWordChar_def isSpace_def Let_def

lemma stripNonDigits_digits: "list_all isDigit (stripNonDigits s)"
  by (simp add: stripNonDigits_def list_all_iff)

lemma stripNonDigits_id: "list_all isDigit s \<Longrightarrow> stripNonDigits s = s"
  by (simp add: stripNonDigits_def list_all_iff)

lemma stripNonDigits_formatted:
  assumes "list_all isDigit p" "list_all isDigit a" "list_all isDigit b" "list_all isDigit c"
  shows "stripNonDigits (43 # p @ str '' ('' @ a @ str '') '' @ b @ str ''-'' @ c) = p @ a @ b @ c"
proof -
  have "stripNonDigits (43 # p @ str '' ('' @ a @ str '') '' @ b @ str ''-'' @ c)
      = stripNonDigits p @ stripNonDigits a @ stripNonDigits b @ stripNonDigits c"
    by (simp add: stripNonDigits_def str_def isDigit_def)
  then show ?thesis using assms by (simp add: stripNonDigits_id)
qed

lemma list_all_take: "list_all P xs \<Longrightarrow> list_all P (take n xs)"
  by (auto simp: list_all_iff dest: in_set_takeD)

lemma list_all_drop: "list_all P xs \<Longrightarrow> list_all P (drop n xs)"
  by (auto simp: list_all_iff dest: in_set_dropD)

lemma split_eleven: "take 1 d @ take 3 (drop 1 d) @ take 3 (drop 4 d) @ drop 7 d = d"
proof -
  have a: "take 3 (drop 4 d) @ drop 7 d = drop 4 d"
    using append_take_drop_id [of 3 "drop 4 d"] by simp
  have b: "take 3 (drop 1 d) @ drop 4 d = drop 1 d"
    using append_take_drop_id [of 3 "drop 1 d"] by simp
  show ?thesis using a b append_take_drop_id [of 1 d] by simp
qed

lemma stripNonDigits_formatDigits:
  "list_all isDigit d \<Longrightarrow> stripNonDigits (formatDigits d) = d"
  unfolding formatDigits_def
  by (simp only: stripNonDigits_formatted list_all_take list_all_drop split_eleven)

lemma format_ten:
  "length (stripNonDigits (toString p)) = 10 \<Longrightarrow> truthy p \<Longrightarrow>
   formatPhoneNumber p = formatDigits (49 # stripNonDigits (toString p))"
  by (simp add: formatPhoneNumber_def formatDigits_def Let_def slice_def sliceFrom_def str_def)

lemma format_eleven:
  "length (stripNonDigits (toString p)) = 11 \<Longrightarrow>
   startsWith (stripNonDigits (toString p)) (str ''1'') \<Longrightarrow> truthy p \<Longrightarrow>
   formatPhoneNumber p = formatDigits (stripNonDigits (toString p))"
  by (simp add: formatPhoneNumber_def formatDigits_def Let_def slice_def sliceFrom_def str_def)

lemma formatDigits_fixed:
  assumes "list_all isDigit d" "length d = 11" "startsWith d (str ''1'')"
  shows "formatPhoneNumber (JStr (formatDigits d)) = formatDigits d"
proof -
  have s: "stripNonDigits (toString (JStr (formatDigits d))) = d"
    using assms(1) by (simp add: stripNonDigits_formatDigits)
  have t: "truthy (JStr (formatDigits d))" by (simp add: formatDigits_def)
  show ?thesis using format_eleven [of "JStr (formatDigits d)"] s t assms by simp
qed

text \<open>
  C6. USA classification: true for \<open>5551234567\<close>, \<open>15551234567\<close> and
  \<open>+1 (555) 123-4567\<close>; false for \<open>+44 20 7946 0958\<close>, for \<open>+1234567890123\<close> (more than
  ten code units after \<open>+1\<close>), and for the empty string, \<open>undefined\<close> and \<open>null\<close>.
\<close>

theorem isUSANumber_table:
  "isUSANumber (JStr (str ''5551234567'')) = True \<and>
   isUSANumber (JStr (str ''15551234567'')) = True \<and>
   isUSANumber (JStr (str ''+1 (555) 123-4567'')) = True \<and>
   isUSANumber (JStr (str ''+44 20 7946 0958'')) = False \<and>
   isUSANumber (JStr (str ''+1234567890123'')) = False \<and>
   plusOneCheck (str ''+1234567890123'') = Some False \<and>
   isUSANumber (JStr []) = False \<and>
   isUSANumber JUndefined = False \<and>
   isUSANumber JNull = False"
  by (simp add: eval_defs)

text \<open>
  C7. Phone formatting is idempotent on its own output: formatting the string that
  \<open>formatPhoneNumber\<close> returned for any value \<open>p\<close> returns that string again.
\<close>

theorem formatPhoneNumber_idempotent:
  "formatPhoneNumber (JStr (formatPhoneNumber p)) = formatPhoneNumber p"
proof (cases "truthy p")
  case False
  then show ?thesis by (simp add: formatPhoneNumber_def)
next
  case True
  define d where "d = stripNonDigits (toString p)"
  have dd: "list_all isDigit d" by (simp add: d_def stripNonDigits_digits)
  consider (ten) "length d = 10"
    | (eleven) "length d \<noteq> 10" "length d = 11 \<and> startsWith d (str ''1'')"
    | (plus) "length d \<noteq> 10" "\<not> (length d = 11 \<and> startsWith d (str ''1''))"
        "startsWith (toString p) (str ''+'')"
    | (other) "length d \<noteq> 10" "\<not> (length d = 11 \<and> startsWith d (str ''1''))"
        "\<not> startsWith (toString p) (str ''+'')"
    by blast
  then show ?thesis
  proof cases
    case ten
    have "formatPhoneNumber p = formatDigits (49 # d)"
      using format_ten [of p] ten True by (simp add: d_def)
    moreover have "formatPhoneNumber (JStr (formatDigits (49 # d))) = formatDigits (49 # d)"
      using dd ten by (intro formatDigits_fixed) (simp_all add: isDigit_def startsWith_def str_def)
    ultimately show ?thesis by simp
  next
    case eleven
    have "formatPhoneNumber p = formatDigits d"
      using format_eleven [of p] eleven True by (simp add: d_def)
    moreover have "formatPhoneNumber (JStr (formatDigits d)) = formatDigits d"
      using dd eleven by (intro formatDigits_fixed) simp_all
    ultimately show ?thesis by simp
  next
    case plus
    have e: "formatPhoneNumber p = toString p"
      using plus True by (auto simp add: formatPhoneNumber_def Let_def d_def [symmetric])
    have ne: "toString p \<noteq> []" using plus(3) by (auto simp: startsWith_def str_def)
    show ?thesis unfolding e using plus ne
      by (auto simp add: formatPhoneNumber_def Let_def d_def [symmetric])
  next
    case other
    have e: "formatPhoneNumber p = 43 # d"
      using other True by (auto simp add: formatPhoneNumber_def Let_def d_def [symmetric] str_def)
    have s: "stripNonDigits (43 # d) = d"
      using dd by (simp add: stripNonDigits_def isDigit_def list_all_iff)
    show ?thesis unfolding e using other s
      by (auto simp add: formatPhoneNumber_def Let_def startsWith_def str_def)
  qed
qed

text \<open>
  C3 at a failing input. \<open>+47 12 34 56 78\<close> starts with \<open>+\<close> and carries the country
  code 47. Its digit string has length 10, so the rule of line 15, which the comment
  of line 14 describes as adding \<open>+1\<close> to a ten-digit number, is taken before the rule
  of line 31 for numbers that already have a country code: the result is a number of
  country code 1, not the input.
\<close>

theorem formatPhoneNumber_plus_ten_digits:
  "startsWith (toString (JStr (str ''+47 12 34 56 78''))) (str ''+'') \<and>
   stripNonDigits (toString (JStr (str ''+47 12 34 56 78''))) = str ''4712345678'' \<and>
   formatPhoneNumber (JStr (str ''+47 12 34 56 78'')) = str ''+1 (471) 234-5678'' \<and>
   formatPhoneNumber (JStr (str ''+47 12 34 56 78'')) \<noteq> toString (JStr (str ''+47 12 34 56 78''))"
  by (simp add: eval_defs)

text \<open>
  C9, as stated, fails on the empty string: it does not start with \<open>+\<close>, its digit
  string has length 0, and the result is the empty string, not \<open>+\<close>.
\<close>

theorem formatPhoneNumber_digits_counterexample:
  "\<not> startsWith (toString (JStr [])) (str ''+'') \<and>
   stripNonDigits (toString (JStr [])) = [] \<and>
   formatPhoneNumber (JStr []) = [] \<and>
   formatPhoneNumber (JStr []) \<noteq> str ''+'' @ stripNonDigits (toString (JStr []))"
  by (simp add: eval_defs)

text \<open>
  C9, amended. A falsy value (empty string, 0, \<open>null\<close>, \<open>undefined\<close>) is formatted as the
  empty string. For a truthy value whose stringified form does not start with \<open>+\<close>, with
  digit string \<open>D\<close>: length 10 gives \<open>+1 (AAA) PPP-LLLL\<close> from the first 3, next 3 and
  last 4 digits of \<open>D\<close>; length 11 with a leading \<open>1\<close> gives the same from digits 2 to 4,
  5 to 7 and 8 to 11; any other \<open>D\<close> gives \<open>+\<close> followed by \<open>D\<close>. \<open>5551234567\<close> and
  \<open>15551234567\<close> both map to \<open>+1 (555) 123-4567\<close>, and \<open>123\<close> maps to \<open>+123\<close>.
\<close>

theorem formatPhoneNumber_digits:
  "(\<not> truthy p \<longrightarrow> formatPhoneNumber p = []) \<and>
   (truthy p \<and> \<not> startsWith (toString p) (str ''+'') \<longrightarrow>
     (let D = stripNonDigits (toString p) in
      (length D = 10 \<longrightarrow>
         formatPhoneNumber p =
           str ''+1 ('' @ take 3 D @ str '') '' @ take 3 (drop 3 D) @ str ''-''
             @ drop (length D - 4) D) \<and>
      (length D = 11 \<and> startsWith D (str ''1'') \<longrightarrow>
         formatPhoneNumber p =
           str ''+1 ('' @ take 3 (drop 1 D) @ str '') '' @ take 3 (drop 4 D) @ str ''-''
             @ drop (length D - 4) D) \<and>
      (length D \<noteq> 10 \<and> \<not> (length D = 11 \<and> startsWith D (str ''1'')) \<longrightarrow>
         formatPhoneNumber p = str ''+'' @ D))) \<and>
   formatPhoneNumber (JStr (str ''5551234567'')) = str ''+1 (555) 123-4567'' \<and>
   formatPhoneNumber (JStr (str ''15551234567'')) = str ''+1 (555) 123-4567'' \<and>
   formatPhoneNumber (JStr (str ''123'')) = str ''+123''"
proof -
  have ex: "formatPhoneNumber (JStr (str ''5551234567'')) = str ''+1 (555) 123-4567'' \<and>
   formatPhoneNumber (JStr (str ''15551234567'')) = str ''+1 (555) 123-4567'' \<and>
   formatPhoneNumber (JStr (str ''123'')) = str ''+123''"
    by (simp add: eval_defs)
  have one: "take 1 D = str ''1''" if "length D = 11" "startsWith D (str ''1'')" for D
    using that by (simp add: startsWith_def str_def)
  have gen: "truthy p \<and> \<not> startsWith (toString p) (str ''+'') \<longrightarrow>
     (let D = stripNonDigits (toString p) in
      (length D = 10 \<longrightarrow>
         formatPhoneNumber p =
           str ''+1 ('' @ take 3 D @ str '') '' @ take 3 (drop 3 D) @ str ''-''
             @ drop (length D - 4) D) \<and>
      (length D = 11 \<and> startsWith D (str ''1'') \<longrightarrow>
         formatPhoneNumber p =
           str ''+1 ('' @ take 3 (drop 1 D) @ str '') '' @ take 3 (drop 4 D) @ str ''-''
             @ drop (length D - 4) D) \<and>
      (length D \<noteq> 10 \<and> \<not> (length D = 11 \<and> startsWith D (str ''1'')) \<longrightarrow>
         formatPhoneNumber p = str ''+'' @ D))"
    using one [of "stripNonDigits (toString p)"]
    by (auto simp: formatPhoneNumber_def Let_def slice_def sliceFrom_def str_def)
  have falsy: "\<not> truthy p \<longrightarrow> formatPhoneNumber p = []"
    by (simp add: formatPhoneNumber_def)
  show ?thesis using ex gen falsy by blast
qed

theorem formatPhoneNumber_digits_witness:
  "truthy (JNum 5551234567) \<and> \<not> startsWith (toString (JNum 5551234567)) (str ''+'') \<and>
   \<not> truthy (JNum 0) \<and> formatPhoneNumber (JNum 0) = [] \<and>
   truthy (JStr (str ''(555) 123-4567'')) \<and>
   length (stripNonDigits (toString (JStr (str ''(555) 123-4567'')))) = 10 \<and>
   formatPhoneNumber (JStr (str ''(555) 123-4567'')) = str ''+1 (555) 123-4567'' \<and>
   length (stripNonDigits (toString (JStr (str ''1-555-123-4567'')))) = 11 \<and>
   formatPhoneNumber (JStr (str ''1-555-123-4567'')) = str ''+1 (555) 123-4567'' \<and>
   length (stripNonDigits (toString (JStr (str ''020 7946 0958'')))) = 11 \<and>
   formatPhoneNumber (JStr (str ''020 7946 0958'')) = str ''+02079460958''"
  using formatPhoneNumber_digits [of "JStr (str ''(555) 123-4567'')"]
    formatPhoneNumber_digits [of "JStr (str ''1-555-123-4567'')"]
    formatPhoneNumber_digits [of "JStr (str ''020 7946 0958'')"]
    formatPhoneNumber_digits [of "JNum 0"]
  by (simp add: str_def startsWith_def stripNonDigits_def isDigit_def Let_def showNat.simps)

lemma toNameCase_string:
  "toNameCase toLowerCase (JStr s) = (if s = [] then [] else replaceWordStarts False (toLowerCase s))"
  by (simp add: toNameCase_def)

lemma toNameCase_not_string: "\<not> isString v \<Longrightarrow> toNameCase toLowerCase v = []"
  by (simp add: toNameCase_def)

lemma toNameCase_example:
  "toNameCase toLowerCaseASCII (JStr (str ''DANIELLE ADAMS'')) = str ''Danielle Adams''"
  by (simp add: eval_defs)

text \<open>
  C5 at a failing input. In \<open>233 # str ''mile''\<close> the code unit 233 is the letter e with
  acute accent. Every non-empty name that the platform lower-cases to this string, the
  string itself among them, comes out with its first letter not capitalised and its
  second letter capitalised: \<open>\b\<close> and \<open>\w\<close> of line 97 take the accented letter for a
  non-word character, against the comment of lines 90 to 93 (first letter of each word
  capitalised). The witness takes \<open>toLowerCaseASCII\<close>, which leaves the string alone as
  the platform does.
\<close>

theorem toNameCase_accented_first_letter:
  assumes "s \<noteq> []" and "toLowerCase s = 233 # str ''mile''"
  shows "toNameCase toLowerCase (JStr s) = 233 # str ''Mile''"
  using assms by (simp add: toNameCase_def) (simp add: str_def isWordChar_def isDigit_def upperCU_def)

theorem toNameCase_accented_first_letter_witness:
  "233 # str ''mile'' \<noteq> [] \<and>
   toLowerCaseASCII (233 # str ''mile'') = 233 # str ''mile'' \<and>
   toNameCase toLowerCaseASCII (JStr (233 # str ''mile'')) = 233 # str ''Mile''"
proof -
  have h: "toLowerCaseASCII (233 # str ''mile'') = 233 # str ''mile''"
    by (simp add: toLowerCaseASCII_def lowerCU_def str_def)
  show ?thesis
    using h toNameCase_accented_first_letter
      [where toLowerCase = toLowerCaseASCII and s = "233 # str ''mile''"]
    by simp
qed

section \<open>Properties of the pipeline\<close>

text \<open>
  The general statements of this section hold for every \<open>toLowerCase\<close> of the platform.
  The concrete batches are ASCII and are run with \<open>toLowerCaseASCII\<close>.
\<close>

lemmas pipeline_defs =
  computeUpdates_def processRecord_def nameUpdate_def phoneUpdate_def usaUpdate_def
  duplicateUpdate_def assignedStatus_def unwrapField_def getField_def orElse_def
  createRowSignature_def fieldEntry_def uniqueMarker_def duplicateMarker_def
  applyUpdates_def applyUpdate_def statusWritten_def statusKept_def receivesStatus_def

subsection \<open>The retry loop\<close>

lemma fetchLoop_from:
  "k \<le> 5 \<Longrightarrow>
   fetchLoop get k [] tr =
     (case find (\<lambda>i. attemptRecords get i \<noteq> []) [k..<5] of
        Some i \<Rightarrow>
          (attemptRecords get i, tr @ concat (map (failedAttemptTrace get) [k..<i]) @ [ApiRecordsGet])
      | None \<Rightarrow> ([], tr @ concat (map (failedAttemptTrace get) [k..<5])))"
proof (induction "5 - k" arbitrary: k tr)
  case 0
  then have k: "k = 5" by simp
  show ?case unfolding k by (subst fetchLoop.simps) (simp add: maxAttempts_def)
next
  case (Suc n)
  then have lt: "k < 5" and le: "Suc k \<le> 5" and n: "n = 5 - Suc k" by simp_all
  have upt: "[k..<5] = k # [Suc k..<5]" using lt by (simp add: upt_conv_Cons)
  show ?case
  proof (cases "attemptRecords get k = []")
    case False
    then obtain response where g: "get k = Inr response" and e: "extractRecords response \<noteq> []"
      by (auto simp: attemptRecords_def split: sum.splits)
    show ?thesis
      using lt g e False
      by (subst fetchLoop.simps) (simp add: maxAttempts_def upt attemptRecords_def Let_def)
  next
    case True
    define tr' where "tr' = tr @ failedAttemptTrace get k"
    have step: "fetchLoop get k [] tr = fetchLoop get (Suc k) [] tr'"
      using lt True
      by (subst fetchLoop.simps)
        (auto simp: maxAttempts_def attemptRecords_def failedAttemptTrace_def waitEvents_def
          tr'_def Let_def split: sum.splits)
    have ih: "fetchLoop get (Suc k) [] tr' =
      (case find (\<lambda>i. attemptRecords get i \<noteq> []) [Suc k..<5] of
        Some i \<Rightarrow>
          (attemptRecords get i, tr' @ concat (map (failedAttemptTrace get) [Suc k..<i]) @ [ApiRecordsGet])
      | None \<Rightarrow> ([], tr' @ concat (map (failedAttemptTrace get) [Suc k..<5])))"
      using Suc.hyps(1) [OF n le] .
    show ?thesis
    proof (cases "find (\<lambda>i. attemptRecords get i \<noteq> []) [Suc k..<5]")
      case None
      then show ?thesis using step ih True by (simp add: upt tr'_def)
    next
      case (Some i)
      then have "i \<in> set [Suc k..<5]" by (auto simp: find_Some_iff)
      then have ki: "k < i" by simp
      then have "[k..<i] = k # [Suc k..<i]" by (simp add: upt_conv_Cons)
      then show ?thesis using step ih True Some by (simp add: upt tr'_def)
    qed
  qed
qed

lemma count_gets_failed: "length (filter (\<lambda>e. e = ApiRecordsGet) (failedAttemptTrace get i)) = 1"
  by (simp add: failedAttemptTrace_def split: sum.splits)

lemma count_gets_concat:
  "length (filter (\<lambda>e. e = ApiRecordsGet) (concat (map (failedAttemptTrace get) is))) = length is"
  by (induction "is") (simp_all add: count_gets_failed)

text \<open>
  C8. The fetch makes at most 5 calls of \<open>api.records.get\<close> and returns the records of
  the first attempt that yields a non-empty list. Every attempt before it, failed or
  empty, leaves the call, the log line of a thrown error (which is caught), and the
  delay of 2000 ms, which is left out after the fifth attempt. When all 5 attempts
  yield nothing the result is the empty list, and the run ends with no update call
  and no exception.
\<close>

theorem fetchRecords_retry:
  "fetchRecords get =
     (case find (\<lambda>i. attemptRecords get i \<noteq> []) [0..<5] of
        Some i \<Rightarrow>
          (attemptRecords get i, concat (map (failedAttemptTrace get) [0..<i]) @ [ApiRecordsGet])
      | None \<Rightarrow> ([], concat (map (failedAttemptTrace get) [0..<5]))) \<and>
   length (filter (\<lambda>e. e = ApiRecordsGet) (snd (fetchRecords get))) \<le> 5 \<and>
   ((\<forall>i<5. attemptRecords get i = []) \<longrightarrow>
      formatRecords toLowerCase \<lparr>recordsGet = get, recordsUpdate = upd\<rparr> =
        \<lparr>trace = concat (map (failedAttemptTrace get) [0..<5]), raised = None\<rparr>)"
proof -
  have eq: "fetchRecords get =
     (case find (\<lambda>i. attemptRecords get i \<noteq> []) [0..<5] of
        Some i \<Rightarrow>
          (attemptRecords get i, concat (map (failedAttemptTrace get) [0..<i]) @ [ApiRecordsGet])
      | None \<Rightarrow> ([], concat (map (failedAttemptTrace get) [0..<5])))"
    unfolding fetchRecords_def using fetchLoop_from [of 0 get "[]"]
    by (simp split: option.split)
  have cnt: "length (filter (\<lambda>e. e = ApiRecordsGet) (snd (fetchRecords get))) \<le> 5"
  proof (cases "find (\<lambda>i. attemptRecords get i \<noteq> []) [0..<5]")
    case None
    then show ?thesis unfolding eq by (simp only: option.case snd_conv count_gets_concat) simp
  next
    case (Some i)
    then have "i \<in> set [0..<5]" by (auto simp: find_Some_iff)
    then have "i < 5" by simp
    then show ?thesis unfolding eq using Some
      by (simp only: option.case snd_conv filter_append length_append count_gets_concat) simp
  qed
  have exh: "formatRecords toLowerCase \<lparr>recordsGet = get, recordsUpdate = upd\<rparr> =
        \<lparr>trace = concat (map (failedAttemptTrace get) [0..<5]), raised = None\<rparr>"
    if "\<forall>i<5. attemptRecords get i = []"
  proof -
    have "find (\<lambda>i. attemptRecords get i \<noteq> []) [0..<5] = None"
      using that by (simp add: find_None_iff)
    then have "fetchRecords get = ([], concat (map (failedAttemptTrace get) [0..<5]))"
      using eq by simp
    then show ?thesis by (simp add: formatRecords_def)
  qed
  show ?thesis using eq cnt exh by blast
qed


theorem fetchRecords_retry_witness:
  "fetchRecords
     (\<lambda>i. if i = 0 then Inr NoData
          else if i = 1 then Inl (StoreError (str ''timeout''))
          else Inr (DataRecords [\<lparr>rid = JStr (str ''r1''), rvalues = None\<rparr>]))
   = ([\<lparr>rid = JStr (str ''r1''), rvalues = None\<rparr>],
      [ApiRecordsGet, Wait 2000,
       ApiRecordsGet, LogAttemptFailed 2 (str ''timeout''), Wait 2000,
       ApiRecordsGet]) \<and>
   formatRecords toLowerCaseASCII
     \<lparr>recordsGet = (\<lambda>i. Inl (StoreError (str ''down''))), recordsUpdate = (\<lambda>us. None)\<rparr>
   = \<lparr>trace =
        [ApiRecordsGet, LogAttemptFailed 1 (str ''down''), Wait 2000,
         ApiRecordsGet, LogAttemptFailed 2 (str ''down''), Wait 2000,
         ApiRecordsGet, LogAttemptFailed 3 (str ''down''), Wait 2000,
         ApiRecordsGet, LogAttemptFailed 4 (str ''down''), Wait 2000,
         ApiRecordsGet, LogAttemptFailed 5 (str ''down'')],
      raised = None\<rparr>"
  using
    fetchRecords_retry [where get = "\<lambda>i. if i = 0 then Inr NoData
          else if i = 1 then Inl (StoreError (str ''timeout''))
          else Inr (DataRecords [\<lparr>rid = JStr (str ''r1''), rvalues = None\<rparr>])"
        and upd = "\<lambda>us. None" and toLowerCase = toLowerCaseASCII]
    fetchRecords_retry [where get = "\<lambda>i. Inl (StoreError (str ''down''))"
        and upd = "\<lambda>us. None" and toLowerCase = toLowerCaseASCII]
  by (simp add: attemptRecords_def failedAttemptTrace_def extractRecords_def upt_rec)

subsection \<open>Records without values\<close>

lemma firstPass_append: "firstPass (xs @ ys) maps = firstPass ys (firstPass xs maps)"
proof (induction xs arbitrary: maps)
  case Nil
  then show ?case by simp
next
  case (Cons r xs)
  show ?case by (cases maps) (simp add: Cons.IH Let_def split: option.split)
qed

lemma secondPass_append:
  "secondPass lc rowS recS (xs @ ys) = secondPass lc rowS recS xs @ secondPass lc rowS recS ys"
  by (induction xs) (simp_all split: option.split)

lemma firstPass_skip: "rvalues r = None \<Longrightarrow> firstPass (r # ys) maps = firstPass ys maps"
  by (cases maps) simp

text \<open>
  C10. A fetched record without a \<open>values\<close> field map is skipped by both passes: the
  signature maps of the first pass, and the updates of the run, are those of the batch
  without it, and the record itself yields no update.
\<close>

theorem records_without_values_skipped:
  assumes "rvalues r = None"
  shows "firstPass (xs @ r # ys) maps = firstPass (xs @ ys) maps \<and>
         processRecord toLowerCase rowSignatures recordSignatures r = None \<and>
         computeUpdates toLowerCase (xs @ r # ys) = computeUpdates toLowerCase (xs @ ys)"
proof -
  have fp: "firstPass (xs @ r # ys) maps = firstPass (xs @ ys) maps" for maps
    using assms by (simp add: firstPass_append firstPass_skip)
  have pr: "processRecord lc rowS recS r = None" for lc rowS recS
    using assms by (simp add: processRecord_def)
  have sp: "secondPass lc rowS recS (xs @ r # ys) = secondPass lc rowS recS (xs @ ys)"
    for lc rowS recS
    by (simp add: secondPass_append pr)
  show ?thesis by (simp add: fp pr sp computeUpdates_def)
qed

theorem records_without_values_skipped_witness:
  "firstPass
     ([\<lparr>rid = JStr (str ''r1''), rvalues = Some [(str ''firstName'', JStr (str ''Ann''))]\<rparr>]
      @ \<lparr>rid = JStr (str ''r2''), rvalues = None\<rparr> # [])
     (Map.empty, Map.empty)
   = firstPass
     ([\<lparr>rid = JStr (str ''r1''), rvalues = Some [(str ''firstName'', JStr (str ''Ann''))]\<rparr>] @ [])
     (Map.empty, Map.empty) \<and>
   processRecord toLowerCaseASCII Map.empty Map.empty \<lparr>rid = JStr (str ''r2''), rvalues = None\<rparr>
     = None \<and>
   computeUpdates toLowerCaseASCII
     ([\<lparr>rid = JStr (str ''r1''), rvalues = Some [(str ''firstName'', JStr (str ''Ann''))]\<rparr>]
      @ \<lparr>rid = JStr (str ''r2''), rvalues = None\<rparr> # [])
   = computeUpdates toLowerCaseASCII
     ([\<lparr>rid = JStr (str ''r1''), rvalues = Some [(str ''firstName'', JStr (str ''Ann''))]\<rparr>] @ []) \<and>
   computeUpdates toLowerCaseASCII
     [\<lparr>rid = JStr (str ''r1''), rvalues = Some [(str ''firstName'', JStr (str ''Ann''))]\<rparr>,
      \<lparr>rid = JStr (str ''r2''), rvalues = None\<rparr>]
   = [\<lparr>uid = JStr (str ''r1''),
       uvalues = [(str ''duplicateStatus'', JObj (JStr uniqueMarker))]\<rparr>]"
proof -
  have c: "computeUpdates toLowerCaseASCII
     [\<lparr>rid = JStr (str ''r1''), rvalues = Some [(str ''firstName'', JStr (str ''Ann''))]\<rparr>,
      \<lparr>rid = JStr (str ''r2''), rvalues = None\<rparr>]
   = [\<lparr>uid = JStr (str ''r1''),
       uvalues = [(str ''duplicateStatus'', JObj (JStr uniqueMarker))]\<rparr>]"
    by (simp add: pipeline_defs eval_defs)
  have r: "rvalues \<lparr>rid = JStr (str ''r2''), rvalues = None\<rparr> = None" by simp
  show ?thesis
    using records_without_values_skipped [OF r, where
        xs = "[\<lparr>rid = JStr (str ''r1''), rvalues = Some [(str ''firstName'', JStr (str ''Ann''))]\<rparr>]"
        and ys = "[]" and maps = "(Map.empty, Map.empty)" and toLowerCase = toLowerCaseASCII
        and rowSignatures = Map.empty and recordSignatures = Map.empty] c
    by blast
qed

subsection \<open>Row signatures and duplicate status\<close>



















subsection \<open>The USA flag\<close>







subsection \<open>A second run\<close>

text \<open>
  C1 at a failing input. One record with a British phone number, stored in wrapper
  form. The first run sets \<open>isUSANumber\<close> to false and \<open>duplicateStatus\<close> to the unique
  marker. On the record set with these updates applied, the second run reads
  \<open>isUSANumber?.value || isUSANumber\<close>, which is the wrapper object since the stored
  value is false, finds it different from false, and submits an update again.
\<close>

theorem formatRecords_second_run_updates:
  "computeUpdates toLowerCase
     [\<lparr>rid = JStr (str ''r1''),
       rvalues = Some [(str ''phone'', JObj (JStr (str ''+44 20 7946 0958'')))]\<rparr>]
   = [\<lparr>uid = JStr (str ''r1''),
       uvalues = [(str ''isUSANumber'', JObj (JBool False)),
                  (str ''duplicateStatus'', JObj (JStr uniqueMarker))]\<rparr>] \<and>
   applyUpdates
     [\<lparr>uid = JStr (str ''r1''),
       uvalues = [(str ''isUSANumber'', JObj (JBool False)),
                  (str ''duplicateStatus'', JObj (JStr uniqueMarker))]\<rparr>]
     [\<lparr>rid = JStr (str ''r1''),
       rvalues = Some [(str ''phone'', JObj (JStr (str ''+44 20 7946 0958'')))]\<rparr>]
   = [\<lparr>rid = JStr (str ''r1''),
       rvalues = Some [(str ''phone'', JObj (JStr (str ''+44 20 7946 0958''))),
                       (str ''isUSANumber'', JObj (JBool False)),
                       (str ''duplicateStatus'', JObj (JStr uniqueMarker))]\<rparr>] \<and>
   computeUpdates toLowerCase
     [\<lparr>rid = JStr (str ''r1''),
       rvalues = Some [(str ''phone'', JObj (JStr (str ''+44 20 7946 0958''))),
                       (str ''isUSANumber'', JObj (JBool False)),
                       (str ''duplicateStatus'', JObj (JStr uniqueMarker))]\<rparr>]
   = [\<lparr>uid = JStr (str ''r1''), uvalues = [(str ''isUSANumber'', JObj (JBool False))]\<rparr>] \<and>
   formatRecords toLowerCase
     \<lparr>recordsGet = (\<lambda>n. Inr (DataRecords
        [\<lparr>rid = JStr (str ''r1''),
          rvalues = Some [(str ''phone'', JObj (JStr (str ''+44 20 7946 0958''))),
                          (str ''isUSANumber'', JObj (JBool False)),
                          (str ''duplicateStatus'', JObj (JStr uniqueMarker))]\<rparr>])),
      recordsUpdate = (\<lambda>us. None)\<rparr>
   = \<lparr>trace =
        [ApiRecordsGet,
         ApiRecordsUpdate
           [\<lparr>uid = JStr (str ''r1''), uvalues = [(str ''isUSANumber'', JObj (JBool False))]\<rparr>]],
      raised = None\<rparr>"
proof -
  have run1: "computeUpdates toLowerCase
     [\<lparr>rid = JStr (str ''r1''),
       rvalues = Some [(str ''phone'', JObj (JStr (str ''+44 20 7946 0958'')))]\<rparr>]
   = [\<lparr>uid = JStr (str ''r1''),
       uvalues = [(str ''isUSANumber'', JObj (JBool False)),
                  (str ''duplicateStatus'', JObj (JStr uniqueMarker))]\<rparr>]"
    by (simp add: pipeline_defs eval_defs)
  have app: "applyUpdates
     [\<lparr>uid = JStr (str ''r1''),
       uvalues = [(str ''isUSANumber'', JObj (JBool False)),
                  (str ''duplicateStatus'', JObj (JStr uniqueMarker))]\<rparr>]
     [\<lparr>rid = JStr (str ''r1''),
       rvalues = Some [(str ''phone'', JObj (JStr (str ''+44 20 7946 0958'')))]\<rparr>]
   = [\<lparr>rid = JStr (str ''r1''),
       rvalues = Some [(str ''phone'', JObj (JStr (str ''+44 20 7946 0958''))),
                       (str ''isUSANumber'', JObj (JBool False)),
                       (str ''duplicateStatus'', JObj (JStr uniqueMarker))]\<rparr>]"
    by (simp add: applyUpdates_def applyUpdate_def str_def)
  have run2: "computeUpdates toLowerCase
     [\<lparr>rid = JStr (str ''r1''),
       rvalues = Some [(str ''phone'', JObj (JStr (str ''+44 20 7946 0958''))),
                       (str ''isUSANumber'', JObj (JBool False)),
                       (str ''duplicateStatus'', JObj (JStr uniqueMarker))]\<rparr>]
   = [\<lparr>uid = JStr (str ''r1''), uvalues = [(str ''isUSANumber'', JObj (JBool False))]\<rparr>]"
    by (simp add: pipeline_defs eval_defs)
  have fetch: "fetchRecords (\<lambda>n. Inr (DataRecords rs)) = (rs, [ApiRecordsGet])"
    if "rs \<noteq> []" for rs
    unfolding fetchRecords_def using that fetchLoop_from [of 0 "\<lambda>n. Inr (DataRecords rs)" "[]"]
    by (simp add: attemptRecords_def extractRecords_def upt_rec)
  have whole: "formatRecords toLowerCase
     \<lparr>recordsGet = (\<lambda>n. Inr (DataRecords
        [\<lparr>rid = JStr (str ''r1''),
          rvalues = Some [(str ''phone'', JObj (JStr (str ''+44 20 7946 0958''))),
                          (str ''isUSANumber'', JObj (JBool False)),
                          (str ''duplicateStatus'', JObj (JStr uniqueMarker))]\<rparr>])),
      recordsUpdate = (\<lambda>us. None)\<rparr>
   = \<lparr>trace =
        [ApiRecordsGet,
         ApiRecordsUpdate
           [\<lparr>uid = JStr (str ''r1''), uvalues = [(str ''isUSANumber'', JObj (JBool False))]\<rparr>]],
      raised = None\<rparr>"
    unfolding formatRecords_def by (simp add: fetch run2 Let_def)
  show ?thesis using run1 app run2 whole by blast
qed

text \<open>
  The same happens on every run to every record whose stored flag is the wrapper of
  false and whose phone is classified false.
\<close>

lemma usa_false_updated_again:
  assumes "rvalues r = Some vs"
    and "truthy (unwrapField vs (str ''phone''))"
    and "\<not> isUSANumber (unwrapField vs (str ''phone''))"
    and "getField vs (str ''isUSANumber'') = JObj (JBool False)"
  shows "\<exists>u. processRecord toLowerCase rowSignatures recordSignatures r = Some u \<and>
             (str ''isUSANumber'', JObj (JBool False)) \<in> set (uvalues u)"
proof -
  have "unwrapField vs (str ''isUSANumber'') = JObj (JBool False)"
    using assms(4) by (simp add: unwrapField_def orElse_def)
  then have "usaUpdate vs (unwrapField vs (str ''phone''))
      = [(str ''isUSANumber'', JObj (JBool False))]"
    using assms(2,3) by (simp add: usaUpdate_def Let_def)
  then show ?thesis using assms(1) by (simp add: processRecord_def Let_def)
qed

end
